theory Spec2Isabelle
  imports Complex_Main "HOL-Library.Sublist" "HOL-Library.Log_Nat"
begin

section \<open>Python values\<close>

text \<open>
  The scripts are Python. Integers are unbounded (\<open>int\<close>); a float is the \<open>real\<close> it
  stands for; \<open>str\<close> is \<open>string\<close>. Every exception the modelled code can raise is a value
  of \<open>py_error\<close>, and a computation that may raise returns \<open>py_error + 'a\<close>.
\<close>

datatype py_error =
  ValueError | AttributeError | KeyError | IndexError | TypeError | ZeroDivisionError
  | OverflowError

text \<open>What \<open>json.loads\<close> returns: \<open>None\<close>, \<open>bool\<close>, \<open>int\<close>, \<open>float\<close>, \<open>str\<close>, \<open>list\<close>, \<open>dict\<close>.\<close>

datatype json =
    JNull
  | JBool bool
  | JInt int
  | JFloat real
  | JStr string
  | JArr "json list"
  | JObj "(string \<times> json) list"

text \<open>Truth value of an object in a condition (\<open>if x:\<close>, \<open>x or y\<close>).\<close>

fun truthy :: "json \<Rightarrow> bool" where
  "truthy JNull = False"
| "truthy (JBool b) = b"
| "truthy (JInt n) = (n \<noteq> 0)"
| "truthy (JFloat r) = (r \<noteq> 0)"
| "truthy (JStr s) = (s \<noteq> [])"
| "truthy (JArr xs) = (xs \<noteq> [])"
| "truthy (JObj kvs) = (kvs \<noteq> [])"

text \<open>\<open>x.get(key, default)\<close>: only a dict has the method.\<close>

definition dict_get :: "(string \<times> json) list \<Rightarrow> string \<Rightarrow> json \<Rightarrow> json" where
  "dict_get kvs key dflt = (case map_of kvs key of None \<Rightarrow> dflt | Some v \<Rightarrow> v)"

fun py_get :: "json \<Rightarrow> string \<Rightarrow> json \<Rightarrow> py_error + json" where
  "py_get (JObj kvs) key dflt = Inr (dict_get kvs key dflt)"
| "py_get _ key dflt = Inl AttributeError"

text \<open>\<open>x['key']\<close> with a string key.\<close>

fun py_item :: "json \<Rightarrow> string \<Rightarrow> py_error + json" where
  "py_item (JObj kvs) key = (case map_of kvs key of None \<Rightarrow> Inl KeyError | Some v \<Rightarrow> Inr v)"
| "py_item _ key = Inl TypeError"

text \<open>\<open>len(x)\<close> and \<open>x[0]\<close>.\<close>

fun py_len :: "json \<Rightarrow> py_error + nat" where
  "py_len (JStr s) = Inr (length s)"
| "py_len (JArr xs) = Inr (length xs)"
| "py_len (JObj kvs) = Inr (length (remdups (map fst kvs)))"
| "py_len _ = Inl TypeError"

fun py_first :: "json \<Rightarrow> py_error + json" where
  "py_first (JArr []) = Inl IndexError"
| "py_first (JArr (x # xs)) = Inr x"
| "py_first (JStr []) = Inl IndexError"
| "py_first (JStr (c # cs)) = Inr (JStr [c])"
| "py_first (JObj kvs) = Inl KeyError"
| "py_first _ = Inl TypeError"

text \<open>Iterating (\<open>for entry in x\<close>) and the slice \<open>x[:n]\<close>.\<close>

fun py_iter :: "json \<Rightarrow> py_error + json list" where
  "py_iter (JArr xs) = Inr xs"
| "py_iter (JStr s) = Inr (map (\<lambda>c. JStr [c]) s)"
| "py_iter (JObj kvs) = Inr (map JStr (remdups (map fst kvs)))"
| "py_iter _ = Inl TypeError"

fun py_slice_to :: "nat \<Rightarrow> json \<Rightarrow> py_error + json list" where
  "py_slice_to n (JArr xs) = Inr (take n xs)"
| "py_slice_to n (JStr s) = Inr (map (\<lambda>c. JStr [c]) (take n s))"
| "py_slice_to n _ = Inl TypeError"

text \<open>\<open>x or y\<close> yields \<open>x\<close> when it is true, else \<open>y\<close>.\<close>

definition py_or :: "json \<Rightarrow> json \<Rightarrow> json" where
  "py_or x y = (if truthy x then x else y)"

text \<open>\<open>x == n\<close> for an integer \<open>n\<close>: numbers compare by value, \<open>True\<close> is 1 and \<open>False\<close> is 0.\<close>

fun py_eq_int :: "json \<Rightarrow> int \<Rightarrow> bool" where
  "py_eq_int (JInt m) n = (m = n)"
| "py_eq_int (JFloat r) n = (r = of_int n)"
| "py_eq_int (JBool b) n = ((if b then 1 else 0) = n)"
| "py_eq_int _ n = False"

text \<open>\<open>s.lower()\<close> on the ASCII letters, and \<open>p in s\<close> is \<^const>\<open>sublist\<close>.\<close>

definition lower_char :: "char \<Rightarrow> char" where
  "lower_char c =
     (case map_of (zip ''ABCDEFGHIJKLMNOPQRSTUVWXYZ'' ''abcdefghijklmnopqrstuvwxyz'') c of
        None \<Rightarrow> c
      | Some l \<Rightarrow> l)"

definition lower :: "string \<Rightarrow> string" where
  "lower s = map lower_char s"

text \<open>
  What \<open>subprocess.run(..., capture_output=True, text=True, timeout=t)\<close> gives: it raises
  (timeout, the client cannot be started, undecodable output), with \<open>str(e)\<close> the message, or it
  completes with a return code and the captured standard output.
\<close>

datatype run_result = Raised string | Completed int string

section \<open>Floats\<close>

text \<open>
  A Python float is an IEEE 754 binary64 number: 53 significant bits, the exponent of a
  normal number from -1022 up, the subnormal numbers multiples of \<open>2 powi - 1074\<close>. A decimal
  literal and the result of \<open>+\<close> are the nearest such number, a tie going to the even one.
  The numbers met here stay below 2, far from the overflow threshold.
\<close>

definition round_half_even :: "real \<Rightarrow> int" where
  "round_half_even x =
     (let f = \<lfloor>x\<rfloor>; d = x - of_int f
      in if d < 1 / 2 then f else if 1 / 2 < d then f + 1 else if even f then f else f + 1)"

definition float_exponent :: "real \<Rightarrow> int" where
  "float_exponent x = max (bitlen \<lfloor>\<bar>x\<bar> * 2 ^ 1074\<rfloor> - 1075) (- 1022)"

definition float_round :: "real \<Rightarrow> real" where
  "float_round x =
     (let ulp = 2 powi (float_exponent x - 52) in of_int (round_half_even (x / ulp)) * ulp)"

definition float_add :: "real \<Rightarrow> real \<Rightarrow> real" where
  "float_add x y = float_round (x + y)"

text \<open>
  Formatting an \<open>int\<close> with \<open>.1f\<close> converts it to a float first, which raises
  \<open>OverflowError\<close> from this absolute value on.
\<close>

definition float_limit :: int where
  "float_limit = 2 ^ 1024 - 2 ^ 970"

section \<open>RangeSampler: \<open>generate_weighted_fid\<close>\<close>

type_synonym range_weight = "int \<times> int \<times> real"

text \<open>
  \<open>random.randint(a, b)\<close> returns an integer \<open>N\<close> with \<open>a \<le> N \<le> b\<close> and raises
  \<open>ValueError\<close> on an empty range. The entropy it consumes is the argument \<open>u\<close>.
\<close>

definition randint :: "int \<Rightarrow> int \<Rightarrow> nat \<Rightarrow> py_error + int" where
  "randint a b u = (if b < a then Inl ValueError else Inr (a + int (u mod nat (b - a + 1))))"

text \<open>
  The \<open>for\<close> loop over \<open>FID_RANGES\<close>: \<open>cumulative += weight\<close>, a float addition, then
  the test \<open>rand <= cumulative\<close>. \<open>None\<close> when the loop ends without returning.
\<close>

fun select_range :: "range_weight list \<Rightarrow> real \<Rightarrow> real \<Rightarrow> (int \<times> int) option" where
  "select_range [] cumulative rand = None"
| "select_range ((min_fid, max_fid, weight) # rest) cumulative rand =
     (if rand \<le> float_add cumulative weight then Some (min_fid, max_fid)
      else select_range rest (float_add cumulative weight) rand)"

text \<open>
  The function body, with the module's table and the constants of its last line as
  parameters; \<open>rand\<close> is the value of \<open>random.random()\<close>, a multiple of \<open>2 powi - 53\<close>
  in \<open>[0, 1)\<close>. The weights of a table are float literals.
\<close>

definition generate_weighted_fid ::
  "range_weight list \<Rightarrow> int \<times> int \<Rightarrow> real \<Rightarrow> nat \<Rightarrow> py_error + int" where
  "generate_weighted_fid FID_RANGES fallback rand u =
     (case select_range FID_RANGES 0 rand of
        Some (min_fid, max_fid) \<Rightarrow> randint min_fid max_fid u
      | None \<Rightarrow> randint (fst fallback) (snd fallback) u)"

text \<open>\<^verbatim>\<open>bulk_populate.py\<close>\<close>

definition bulk_FID_RANGES :: "range_weight list" where
  "bulk_FID_RANGES =
     [(1, 1000, float_round (3 / 10)), (1000, 5000, float_round (4 / 10)),
      (5000, 20000, float_round (2 / 10)), (20000, 50000, float_round (1 / 10))]"

definition bulk_generate_weighted_fid :: "real \<Rightarrow> nat \<Rightarrow> py_error + int" where
  "bulk_generate_weighted_fid = generate_weighted_fid bulk_FID_RANGES (20000, 50000)"

text \<open>\<^verbatim>\<open>simple_bulk_populate.py\<close>\<close>

definition simple_FID_RANGES :: "range_weight list" where
  "simple_FID_RANGES =
     [(1, 1000, float_round (4 / 10)), (1000, 5000, float_round (3 / 10)),
      (5000, 15000, float_round (2 / 10)), (15000, 30000, float_round (1 / 10))]"

definition simple_generate_weighted_fid :: "real \<Rightarrow> nat \<Rightarrow> py_error + int" where
  "simple_generate_weighted_fid = generate_weighted_fid simple_FID_RANGES (1, 5000)"

section \<open>ExistenceVerifier: \<open>check_neynar_user_exists\<close> (\<^verbatim>\<open>bulk_populate.py\<close>)\<close>

text \<open>
  \<open>result\<close> is the outcome of the \<open>curl -s -w '%{http_code}'\<close> call, so the standard output
  is the body followed by the three characters of the status code. \<open>json_loads\<close> is
  \<open>json.loads\<close>, \<open>Inl\<close> the message of its \<open>JSONDecodeError\<close>. Both \<open>except\<close> clauses return
  \<open>False\<close>.
\<close>

definition check_neynar_user_exists ::
  "(string \<Rightarrow> string + json) \<Rightarrow> run_result \<Rightarrow> int \<Rightarrow> bool" where
  "check_neynar_user_exists json_loads result fid =
     (case result of
        Raised e \<Rightarrow> False
      | Completed returncode stdout \<Rightarrow>
          if returncode \<noteq> 0 then False
          else
            let response_body = take (length stdout - 3) stdout;
                status_code = drop (length stdout - 3) stdout
            in if status_code \<noteq> ''200'' then False
               else
                 (case json_loads response_body of
                    Inl e \<Rightarrow> False
                  | Inr data \<Rightarrow>
                      (case py_get data ''users'' (JArr []) of
                         Inl e \<Rightarrow> False
                       | Inr users \<Rightarrow>
                           (case py_len users of
                              Inl e \<Rightarrow> False
                            | Inr n \<Rightarrow>
                                if 0 < n then
                                  (case py_first users of
                                     Inl e \<Rightarrow> False
                                   | Inr user \<Rightarrow>
                                       (case py_get user ''fid'' JNull of
                                          Inl e \<Rightarrow> False
                                        | Inr v \<Rightarrow> py_eq_int v fid))
                                else False))))"

section \<open>ScoreFetcher: \<open>get_creator_score\<close>\<close>

text \<open>
  \<^verbatim>\<open>bulk_populate.py\<close>: returns \<open>data['data']\<close> when \<open>data.get('success')\<close> is true and
  \<open>None\<close> (here \<^const>\<open>JNull\<close>) otherwise, also when anything raises. Its console
  messages are left out.
\<close>

definition bulk_get_creator_score :: "(string \<Rightarrow> string + json) \<Rightarrow> run_result \<Rightarrow> json" where
  "bulk_get_creator_score json_loads result =
     (case result of
        Raised e \<Rightarrow> JNull
      | Completed returncode stdout \<Rightarrow>
          if returncode \<noteq> 0 then JNull
          else
            (case json_loads stdout of
               Inl e \<Rightarrow> JNull
             | Inr data \<Rightarrow>
                 (case py_get data ''success'' JNull of
                    Inl e \<Rightarrow> JNull
                  | Inr ok \<Rightarrow>
                      if truthy ok then
                        (case py_item data ''data'' of Inl e \<Rightarrow> JNull | Inr d \<Rightarrow> d)
                      else JNull)))"

text \<open>
  \<^verbatim>\<open>simple_bulk_populate.py\<close> and \<^verbatim>\<open>targeted_bulk_populate.py\<close>: returns the decoded body,
  or a dict \<open>{"success": False, "error": ...}\<close>.
\<close>

definition request_error :: "string \<Rightarrow> json" where
  "request_error msg = JObj [(''success'', JBool False), (''error'', JStr msg)]"

definition get_creator_score :: "(string \<Rightarrow> string + json) \<Rightarrow> run_result \<Rightarrow> json" where
  "get_creator_score json_loads result =
     (case result of
        Raised e \<Rightarrow> request_error e
      | Completed returncode stdout \<Rightarrow>
          if returncode \<noteq> 0 then request_error ''Request failed''
          else (case json_loads stdout of Inl e \<Rightarrow> request_error e | Inr data \<Rightarrow> data))"

section \<open>BackfillLoop: the \<open>while\<close> loop of \<open>main\<close>\<close>

text \<open>What an iteration prints, and the calls of \<open>time.sleep\<close>, in order.\<close>

datatype event =
    Sleep real
  | Testing int int
  | NotInNeynar
  | Active
  | Scored json json int
  | ScoreFailed
  | InvalidFID
  | ErrorLine json
  | Inactive
  | Progress int int

record run_state =
  successful_adds :: int
  attempts :: int
  processed_fids :: "int set"
  trace :: "event list"

definition init_state :: run_state where
  "init_state = \<lparr>successful_adds = 0, attempts = 0, processed_fids = {}, trace = []\<rparr>"

definition emit :: "event \<Rightarrow> run_state \<Rightarrow> run_state" where
  "emit ev st = st\<lparr>trace := trace st @ [ev]\<rparr>"

text \<open>
  What the outside world answers in the iteration that sets \<open>attempts\<close> to \<open>n\<close>: the key
  \<open>generate_weighted_fid()\<close> returns and the outcomes of the two \<open>curl\<close> calls;
  \<open>json_decoder\<close> is \<open>json.loads\<close>.
\<close>

record env =
  draw :: "int \<Rightarrow> int"
  neynar_curl :: "int \<Rightarrow> run_result"
  score_curl :: "int \<Rightarrow> run_result"
  json_decoder :: "string \<Rightarrow> string + json"

text \<open>
  \<open>while cond: body\<close>, where the body may raise. \<open>None\<close> is a loop that never ends,
  \<open>Some (Inl e)\<close> one left by the exception \<open>e\<close>, \<open>Some (Inr s)\<close> one left by its condition.
\<close>

partial_function (option) py_while ::
  "('s \<Rightarrow> bool) \<Rightarrow> ('s \<Rightarrow> 'e + 's) \<Rightarrow> 's \<Rightarrow> ('e + 's) option" where
  "py_while cond body s =
     (if cond s then
        (case body s of Inl e \<Rightarrow> Some (Inl e) | Inr s' \<Rightarrow> py_while cond body s')
      else Some (Inr s))"

definition loop_cond :: "int \<Rightarrow> int \<Rightarrow> run_state \<Rightarrow> bool" where
  "loop_cond TARGET_USERS max_attempts st \<longleftrightarrow>
     successful_adds st < TARGET_USERS \<and> attempts st < max_attempts"

text \<open>
  The first lines of the body are the same in the three scripts: \<open>attempts += 1\<close>, the draw,
  \<open>continue\<close> on a key of \<open>processed_fids\<close>, else \<open>processed_fids.add(fid)\<close> and the rest of the
  body, \<open>probe\<close>.
\<close>

definition iteration ::
  "(env \<Rightarrow> int \<Rightarrow> run_state \<Rightarrow> py_error + run_state) \<Rightarrow> env \<Rightarrow> run_state \<Rightarrow> py_error + run_state"
  where
  "iteration probe env st =
     (let st1 = st\<lparr>attempts := attempts st + 1\<rparr>;
          fid = draw env (attempts st1)
      in if fid \<in> processed_fids st1 then Inr st1
         else probe env fid (st1\<lparr>processed_fids := insert fid (processed_fids st1)\<rparr>))"

text \<open>\<^verbatim>\<open>bulk_populate.py\<close>, with \<open>REQUEST_DELAY = 2.0\<close>.\<close>

definition bulk_probe :: "env \<Rightarrow> int \<Rightarrow> run_state \<Rightarrow> py_error + run_state" where
  "bulk_probe env fid st =
     (let st1 = emit (Testing (attempts st) fid) st
      in if \<not> check_neynar_user_exists (json_decoder env) (neynar_curl env (attempts st)) fid
         then Inr (emit (Sleep (1 / 2)) (emit NotInNeynar st1))
         else
           let st2 = emit Active st1;
               score_data = bulk_get_creator_score (json_decoder env) (score_curl env (attempts st))
           in case
                (if truthy score_data then
                   (case py_get score_data ''overallScore'' (JStr ''N/A'') of
                      Inl e \<Rightarrow> Inl e
                    | Inr score \<Rightarrow>
                        (case py_get score_data ''tier'' (JStr ''N/A'') of
                           Inl e \<Rightarrow> Inl e
                         | Inr tier \<Rightarrow>
                             Inr (emit (Scored score tier (successful_adds st2 + 1))
                                    (st2\<lparr>successful_adds := successful_adds st2 + 1\<rparr>))))
                 else Inr (emit ScoreFailed st2))
              of
                Inl e \<Rightarrow> Inl e
              | Inr st3 \<Rightarrow> Inr (emit (Sleep 2) st3))"

definition bulk_loop :: "int \<Rightarrow> int \<Rightarrow> env \<Rightarrow> run_state \<Rightarrow> (py_error + run_state) option"
  where
  "bulk_loop TARGET_USERS max_attempts env =
     py_while (loop_cond TARGET_USERS max_attempts) (iteration bulk_probe env)"

text \<open>
  \<^verbatim>\<open>simple_bulk_populate.py\<close>, with \<open>REQUEST_DELAY = 1.5\<close>. \<open>error.lower()\<close> raises on an
  error that is not a string. The progress line divides by the module constant
  \<open>TARGET_USERS = 100\<close>; the event keeps the two counters it prints.
\<close>

definition simple_probe :: "env \<Rightarrow> int \<Rightarrow> run_state \<Rightarrow> py_error + run_state" where
  "simple_probe env fid st =
     (let st1 = emit (Testing (attempts st) fid) st;
          result = get_creator_score (json_decoder env) (score_curl env (attempts st))
      in case
           (case py_get result ''success'' JNull of
              Inl e \<Rightarrow> Inl e
            | Inr ok \<Rightarrow>
                if truthy ok then
                  (case py_item result ''data'' of
                     Inl e \<Rightarrow> Inl e
                   | Inr score_data \<Rightarrow>
                       (case py_get score_data ''overallScore'' (JStr ''N/A'') of
                          Inl e \<Rightarrow> Inl e
                        | Inr score \<Rightarrow>
                            (case py_get score_data ''tier'' (JStr ''N/A'') of
                               Inl e \<Rightarrow> Inl e
                             | Inr tier \<Rightarrow>
                                 Inr (emit (Scored score tier (successful_adds st1 + 1))
                                        (st1\<lparr>successful_adds := successful_adds st1 + 1\<rparr>)))))
                else
                  (case py_get result ''error'' (JStr ''Unknown error'') of
                     Inl e \<Rightarrow> Inl e
                   | Inr (JStr error) \<Rightarrow>
                       if sublist ''not found'' (lower error) \<or> sublist ''invalid'' (lower error)
                       then Inr (emit InvalidFID st1)
                       else Inr (emit (ErrorLine (JStr error)) st1)
                   | Inr _ \<Rightarrow> Inl AttributeError))
         of
           Inl e \<Rightarrow> Inl e
         | Inr st2 \<Rightarrow>
             let st3 = emit (Sleep (3 / 2)) st2
             in Inr (if attempts st3 mod 20 = 0
                     then emit (Progress (successful_adds st3) (attempts st3)) st3
                     else st3))"

definition simple_loop :: "int \<Rightarrow> int \<Rightarrow> env \<Rightarrow> run_state \<Rightarrow> (py_error + run_state) option"
  where
  "simple_loop TARGET_USERS max_attempts env =
     py_while (loop_cond TARGET_USERS max_attempts) (iteration simple_probe env)"

text \<open>
  \<^verbatim>\<open>targeted_bulk_populate.py\<close>, with \<open>REQUEST_DELAY = 1.0\<close>. The format \<open>{score:.1f}\<close>
  takes a number, an \<open>int\<close> only when it fits a float, and raises on anything else.
\<close>

fun format_1f :: "json \<Rightarrow> py_error + unit" where
  "format_1f (JInt n) = (if \<bar>n\<bar> < float_limit then Inr () else Inl OverflowError)"
| "format_1f (JFloat r) = Inr ()"
| "format_1f (JBool b) = Inr ()"
| "format_1f (JStr s) = Inl ValueError"
| "format_1f _ = Inl TypeError"

definition targeted_probe :: "env \<Rightarrow> int \<Rightarrow> run_state \<Rightarrow> py_error + run_state" where
  "targeted_probe env fid st =
     (let st1 = emit (Testing (attempts st) fid) st;
          result = get_creator_score (json_decoder env) (score_curl env (attempts st))
      in case
           (case py_get result ''success'' JNull of
              Inl e \<Rightarrow> Inl e
            | Inr ok \<Rightarrow>
                if truthy ok then
                  (case py_item result ''data'' of
                     Inl e \<Rightarrow> Inl e
                   | Inr score_data \<Rightarrow>
                       (case py_get score_data ''overallScore'' JNull of
                          Inl e \<Rightarrow> Inl e
                        | Inr score \<Rightarrow>
                            (case py_get score_data ''tier'' (JStr ''N/A'') of
                               Inl e \<Rightarrow> Inl e
                             | Inr tier \<Rightarrow>
                                 if score \<noteq> JNull then
                                   (case format_1f score of
                                      Inl e \<Rightarrow> Inl e
                                    | Inr _ \<Rightarrow>
                                        Inr (emit (Scored score tier (successful_adds st1 + 1))
                                               (st1\<lparr>successful_adds := successful_adds st1 + 1\<rparr>)))
                                 else Inr (emit Inactive st1))))
                else
                  (case py_get result ''error'' (JStr ''Failed'') of
                     Inl e \<Rightarrow> Inl e
                   | Inr error \<Rightarrow> Inr (emit (ErrorLine error) st1)))
         of
           Inl e \<Rightarrow> Inl e
         | Inr st2 \<Rightarrow>
             let st3 = emit (Sleep 1) st2
             in if attempts st3 mod 25 = 0 then
                  (if attempts st3 = 0 then Inl ZeroDivisionError
                   else Inr (emit (Progress (successful_adds st3) (attempts st3)) st3))
                else Inr st3)"

definition targeted_loop :: "int \<Rightarrow> int \<Rightarrow> env \<Rightarrow> run_state \<Rightarrow> (py_error + run_state) option"
  where
  "targeted_loop TARGET_USERS max_attempts env =
     py_while (loop_cond TARGET_USERS max_attempts) (iteration targeted_probe env)"

section \<open>\<open>force_profile_update\<close> (\<^verbatim>\<open>update_all_profiles.py\<close>)\<close>

text \<open>The line the function prints and the boolean it returns.\<close>

datatype profile_line =
    RaisedLine string
  | ExceptionLine py_error
  | RequestFailedLine
  | InvalidJSONLine
  | ProfileLine json json json json json
  | NoProfileLine json json
  | NotFoundLine
  | ErrorMsgLine string

definition force_profile_update ::
  "(string \<Rightarrow> string + json) \<Rightarrow> run_result \<Rightarrow> profile_line \<times> bool" where
  "force_profile_update json_loads result =
     (case result of
        Raised e \<Rightarrow> (RaisedLine e, False)
      | Completed returncode stdout \<Rightarrow>
          if returncode \<noteq> 0 then (RequestFailedLine, False)
          else
            (case json_loads stdout of
               Inl e \<Rightarrow> (InvalidJSONLine, False)
             | Inr data \<Rightarrow>
                 (case py_get data ''success'' JNull of
                    Inl e \<Rightarrow> (ExceptionLine e, False)
                  | Inr ok \<Rightarrow>
                      if truthy ok then
                        (case py_item data ''data'' of
                           Inl e \<Rightarrow> (ExceptionLine e, False)
                         | Inr (JObj sd) \<Rightarrow>
                             let username = py_or (dict_get sd ''username'' JNull) (JStr ''N/A'');
                                 display_name = py_or (dict_get sd ''displayName'' JNull) (JStr ''N/A'');
                                 pfp_url = JStr (if truthy (dict_get sd ''pfpUrl'' JNull) then ''Yes'' else ''No'');
                                 score = dict_get sd ''overallScore'' (JStr ''N/A'');
                                 tier = dict_get sd ''tier'' (JStr ''N/A'')
                             in if username \<noteq> JStr ''N/A'' \<or> display_name \<noteq> JStr ''N/A''
                                then (ProfileLine username display_name score tier pfp_url, True)
                                else (NoProfileLine score tier, True)
                         | Inr _ \<Rightarrow> (ExceptionLine AttributeError, False))
                      else
                        (case py_get data ''error'' (JStr ''Unknown error'') of
                           Inl e \<Rightarrow> (ExceptionLine e, False)
                         | Inr (JStr error_msg) \<Rightarrow>
                             if sublist ''not found'' (lower error_msg) \<or>
                                sublist ''invalid'' (lower error_msg)
                             then (NotFoundLine, False)
                             else (ErrorMsgLine error_msg, False)
                         | Inr _ \<Rightarrow> (ExceptionLine AttributeError, False)))))"

section \<open>AggregateRefresher: the final leaderboard check (\<^verbatim>\<open>force_cache_refresh.py\<close>)\<close>

text \<open>
  The last \<open>try\<close> block of \<open>main\<close>, as the lines it prints. \<open>Coverage w n\<close> is the line
  "Final profile coverage: w/n entries have profile data"; an exception anywhere in the block
  prints \<open>CheckFailed\<close> after what was printed before.
\<close>

datatype report =
    Coverage nat nat
  | TopEntry bool json json json json
  | ApiError
  | RequestFailed
  | CheckFailed

text \<open>\<open>entry.get('username') or entry.get('displayName')\<close>, as a condition.\<close>

definition has_profile :: "json \<Rightarrow> py_error + bool" where
  "has_profile entry =
     (case py_get entry ''username'' JNull of
        Inl e \<Rightarrow> Inl e
      | Inr username \<Rightarrow>
          if truthy username then Inr True
          else (case py_get entry ''displayName'' JNull of
                  Inl e \<Rightarrow> Inl e
                | Inr display_name \<Rightarrow> Inr (truthy display_name)))"

text \<open>\<open>sum(1 for entry in leaderboard if ...)\<close> over the entries in order.\<close>

fun count_with_profiles :: "json list \<Rightarrow> py_error + nat" where
  "count_with_profiles [] = Inr 0"
| "count_with_profiles (entry # rest) =
     (case has_profile entry of
        Inl e \<Rightarrow> Inl e
      | Inr p \<Rightarrow>
          (case count_with_profiles rest of
             Inl e \<Rightarrow> Inl e
           | Inr n \<Rightarrow> Inr (if p then n + 1 else n)))"

text \<open>The loop over \<open>leaderboard[:5]\<close>; \<open>entry['rank']\<close> and the like raise on a missing key.\<close>

definition top_entry :: "json \<Rightarrow> py_error + report" where
  "top_entry entry =
     (case has_profile entry of
        Inl e \<Rightarrow> Inl e
      | Inr p \<Rightarrow>
          (case py_item entry ''rank'' of
             Inl e \<Rightarrow> Inl e
           | Inr rank \<Rightarrow>
               (case py_item entry ''fid'' of
                  Inl e \<Rightarrow> Inl e
                | Inr fid \<Rightarrow>
                    (case py_item entry ''overallScore'' of
                       Inl e \<Rightarrow> Inl e
                     | Inr score \<Rightarrow>
                         (case py_item entry ''tier'' of
                            Inl e \<Rightarrow> Inl e
                          | Inr tier \<Rightarrow> Inr (TopEntry p rank fid score tier))))))"

fun top_entries :: "json list \<Rightarrow> report list" where
  "top_entries [] = []"
| "top_entries (entry # rest) =
     (case top_entry entry of
        Inl e \<Rightarrow> [CheckFailed]
      | Inr line \<Rightarrow> line # top_entries rest)"

definition final_leaderboard_check ::
  "(string \<Rightarrow> string + json) \<Rightarrow> run_result \<Rightarrow> report list" where
  "final_leaderboard_check json_loads result =
     (case result of
        Raised e \<Rightarrow> [CheckFailed]
      | Completed returncode stdout \<Rightarrow>
          if returncode = 0 then
            (case json_loads stdout of
               Inl e \<Rightarrow> [CheckFailed]
             | Inr data \<Rightarrow>
                 (case py_get data ''success'' JNull of
                    Inl e \<Rightarrow> [CheckFailed]
                  | Inr ok \<Rightarrow>
                      if truthy ok then
                        (case py_item data ''data'' of
                           Inl e \<Rightarrow> [CheckFailed]
                         | Inr d \<Rightarrow>
                             (case py_item d ''leaderboard'' of
                                Inl e \<Rightarrow> [CheckFailed]
                              | Inr leaderboard \<Rightarrow>
                                  (case py_iter leaderboard of
                                     Inl e \<Rightarrow> [CheckFailed]
                                   | Inr entries \<Rightarrow>
                                       (case count_with_profiles entries of
                                          Inl e \<Rightarrow> [CheckFailed]
                                        | Inr with_profiles \<Rightarrow>
                                            (case py_len leaderboard of
                                               Inl e \<Rightarrow> [CheckFailed]
                                             | Inr total_entries \<Rightarrow>
                                                 Coverage with_profiles total_entries #
                                                 (case py_slice_to 5 leaderboard of
                                                    Inl e \<Rightarrow> [CheckFailed]
                                                  | Inr first5 \<Rightarrow> top_entries first5))))))
                      else [ApiError]))
          else [RequestFailed])"

section \<open>The run over FIDs 1 to 100 (\<^verbatim>\<open>bulk_update_1_to_100.py\<close>)\<close>

text \<open>
  The dict \<open>update_fid_with_profile\<close> returns, by its \<open>status\<close>: \<open>'success'\<close> with the fields
  \<open>username\<close>, \<open>displayName\<close>, \<open>pfpUrl\<close>, \<open>score\<close>, \<open>tier\<close>, \<open>hasProfile\<close>; \<open>'error'\<close> with the
  value of the response's \<open>error\<close>; \<open>'failed'\<close> with a message.
\<close>

datatype failure = RequestFailedMsg | InvalidJSONMsg | RaisedMsg string | ExceptionMsg py_error

datatype update_result =
    Success json json json json json bool
  | ErrorResult json
  | FailedResult failure

definition update_fid_with_profile ::
  "(string \<Rightarrow> string + json) \<Rightarrow> run_result \<Rightarrow> update_result" where
  "update_fid_with_profile json_loads result =
     (case result of
        Raised e \<Rightarrow> FailedResult (RaisedMsg e)
      | Completed returncode stdout \<Rightarrow>
          if returncode \<noteq> 0 then FailedResult RequestFailedMsg
          else
            (case json_loads stdout of
               Inl e \<Rightarrow> FailedResult InvalidJSONMsg
             | Inr data \<Rightarrow>
                 (case py_get data ''success'' JNull of
                    Inl e \<Rightarrow> FailedResult (ExceptionMsg e)
                  | Inr ok \<Rightarrow>
                      if truthy ok then
                        (case py_item data ''data'' of
                           Inl e \<Rightarrow> FailedResult (ExceptionMsg e)
                         | Inr (JObj sd) \<Rightarrow>
                             let username = dict_get sd ''username'' JNull;
                                 display_name = dict_get sd ''displayName'' JNull;
                                 pfp_url = dict_get sd ''pfpUrl'' JNull;
                                 score = dict_get sd ''overallScore'' (JInt 0);
                                 tier = dict_get sd ''tier'' (JStr ''D'')
                             in Success username display_name pfp_url score tier
                                  (truthy (py_or username display_name))
                         | Inr _ \<Rightarrow> FailedResult (ExceptionMsg AttributeError))
                      else
                        (case py_get data ''error'' (JStr ''Unknown error'') of
                           Inl e \<Rightarrow> FailedResult (ExceptionMsg e)
                         | Inr error_msg \<Rightarrow> ErrorResult error_msg))))"

text \<open>The counters of \<open>main\<close>, its \<open>results\<close> list, and what it has printed and slept.\<close>

datatype update_event =
    WithProfile int json json json json json
  | WithoutProfile json json
  | NotFound
  | FailedLine
  | ProgressLine int
  | Pause real
  | FinalResults int int int int
  | ProfileCoverage int int

record tally =
  successful_updates :: int
  failed_updates :: int
  not_found :: int
  with_profiles :: int
  results :: "(int \<times> json \<times> json \<times> json \<times> json) list"
  printed :: "update_event list"

definition init_tally :: tally where
  "init_tally = \<lparr>successful_updates = 0, failed_updates = 0, not_found = 0, with_profiles = 0,
                  results = [], printed = []\<rparr>"

definition say :: "update_event \<Rightarrow> tally \<Rightarrow> tally" where
  "say ev t = t\<lparr>printed := printed t @ [ev]\<rparr>"

text \<open>
  The body of \<open>for fid in range(1, 101)\<close>, given the result of \<open>update_fid_with_profile(fid)\<close>.
  \<open>result['error'].lower()\<close> raises on an error that is not a string; \<open>Inl\<close> carries the
  exception and the state it leaves.
\<close>

definition record_result :: "int \<Rightarrow> update_result \<Rightarrow> tally \<Rightarrow> (py_error \<times> tally) + tally" where
  "record_result fid result t =
     (case
        (case result of
           Success username display_name pfp_url score tier hasProfile \<Rightarrow>
             let t1 = t\<lparr>successful_updates := successful_updates t + 1\<rparr>
             in if hasProfile then
                  let t2 = t1\<lparr>with_profiles := with_profiles t1 + 1\<rparr>;
                      username' = py_or username (JStr ''N/A'');
                      display_name' = py_or display_name (JStr ''N/A'');
                      pfp = JStr (if truthy pfp_url then ''Yes'' else ''No'');
                      t3 = say (WithProfile fid username' display_name' score tier pfp) t2
                  in Inr (t3\<lparr>results := results t3 @ [(fid, username', display_name', score, tier)]\<rparr>)
                else Inr (say (WithoutProfile score tier) t1)
         | ErrorResult error \<Rightarrow>
             (case error of
                JStr msg \<Rightarrow>
                  if sublist ''not found'' (lower msg) \<or> sublist ''invalid'' (lower msg)
                  then Inr (say NotFound (t\<lparr>not_found := not_found t + 1\<rparr>))
                  else Inr (say FailedLine (t\<lparr>failed_updates := failed_updates t + 1\<rparr>))
              | _ \<Rightarrow> Inl (AttributeError, t))
         | FailedResult f \<Rightarrow> Inr (say FailedLine (t\<lparr>failed_updates := failed_updates t + 1\<rparr>)))
      of
        Inl x \<Rightarrow> Inl x
      | Inr t' \<Rightarrow>
          Inr (if fid mod 10 = 0 then say (Pause 2) (say (ProgressLine fid) t')
               else say (Pause 1) t'))"

fun for_fids ::
  "(int \<Rightarrow> update_result) \<Rightarrow> int list \<Rightarrow> tally \<Rightarrow> (py_error \<times> tally) + tally" where
  "for_fids fetch [] t = Inr t"
| "for_fids fetch (fid # fids) t =
     (case record_result fid (fetch fid) t of
        Inl x \<Rightarrow> Inl x
      | Inr t' \<Rightarrow> for_fids fetch fids t')"

text \<open>
  \<open>main\<close> from its first line to the "FINAL RESULTS" block. The last line of the block divides
  \<open>with_profiles\<close> by \<open>successful_updates\<close>. \<open>Inl\<close> is an exception that nothing catches: it ends
  the program there. \<open>Inr\<close> is a run that goes on with the rest of \<open>main\<close>: the list of top
  creators, then the leaderboard refresh and the final analysis.
\<close>

definition main_final_results ::
  "(string \<Rightarrow> string + json) \<Rightarrow> (int \<Rightarrow> run_result) \<Rightarrow> (py_error \<times> tally) + tally" where
  "main_final_results json_loads curl =
     (case for_fids (\<lambda>fid. update_fid_with_profile json_loads (curl fid)) [1..100] init_tally of
        Inl x \<Rightarrow> Inl x
      | Inr t \<Rightarrow>
          let t1 = say (FinalResults (successful_updates t) (with_profiles t)
                          (failed_updates t) (not_found t)) t
          in if successful_updates t1 = 0 then Inl (ZeroDivisionError, t1)
             else Inr (say (ProfileCoverage (with_profiles t1) (successful_updates t1)) t1))"

section \<open>Predicates of the specification\<close>

text \<open>
  The data model types \<open>username\<close> and \<open>displayName\<close> as optional strings: absent, null or
  a string. "Has enrichment" is: the username is present (a non-empty string) or the display
  name is.
\<close>

definition optional_string :: "json option \<Rightarrow> bool" where
  "optional_string v =
     (case v of None \<Rightarrow> True | Some JNull \<Rightarrow> True | Some (JStr s) \<Rightarrow> True | Some _ \<Rightarrow> False)"

definition typed_entry :: "json \<Rightarrow> bool" where
  "typed_entry entry =
     (case entry of
        JObj kvs \<Rightarrow>
          optional_string (map_of kvs ''username'') \<and>
          optional_string (map_of kvs ''displayName'')
      | _ \<Rightarrow> False)"

definition field_present :: "json \<Rightarrow> string \<Rightarrow> bool" where
  "field_present entry key =
     (case entry of
        JObj kvs \<Rightarrow> (case map_of kvs key of Some (JStr s) \<Rightarrow> s \<noteq> [] | _ \<Rightarrow> False)
      | _ \<Rightarrow> False)"

definition has_enrichment :: "json \<Rightarrow> bool" where
  "has_enrichment entry \<longleftrightarrow> field_present entry ''username'' \<or> field_present entry ''displayName''"



text \<open>
  A per-key fetch that failed or returned an error: the status is \<open>'failed'\<close>, or it is
  \<open>'error'\<close> with a message.
\<close>

definition fetch_failed :: "update_result \<Rightarrow> bool" where
  "fetch_failed result =
     (case result of
        Success username display_name pfp_url score tier hasProfile \<Rightarrow> False
      | ErrorResult error \<Rightarrow> (case error of JStr msg \<Rightarrow> True | _ \<Rightarrow> False)
      | FailedResult f \<Rightarrow> True)"

definition coverage_printed :: "tally \<Rightarrow> bool" where
  "coverage_printed t = list_ex (\<lambda>ev. case ev of ProfileCoverage w n \<Rightarrow> True | _ \<Rightarrow> False) (printed t)"

section \<open>Concrete runs\<close>

text \<open>A state that has already probed key 7, and a sampler that draws 7 again.\<close>

definition seen_env :: env where
  "seen_env = \<lparr>draw = (\<lambda>n. 7), neynar_curl = (\<lambda>n. Raised ''timed out''),
                score_curl = (\<lambda>n. Raised ''timed out''), json_decoder = (\<lambda>s. Inl ''Expecting value'')\<rparr>"

definition seen_state :: run_state where
  "seen_state = \<lparr>successful_adds = 1, attempts = 3, processed_fids = {7}, trace = []\<rparr>"

text \<open>
  The scoring service answers key 42 with
  \<open>{"success": true, "data": {"overallScore": null, "tier": "D"}}\<close>.
\<close>

definition null_score_response :: json where
  "null_score_response =
     JObj [(''success'', JBool True),
           (''data'', JObj [(''overallScore'', JNull), (''tier'', JStr ''D'')])]"

definition null_score_env :: env where
  "null_score_env = \<lparr>draw = (\<lambda>n. 42), neynar_curl = (\<lambda>n. Raised ''timed out''),
                      score_curl = (\<lambda>n. Completed 0 ''{}''),
                      json_decoder = (\<lambda>s. Inr null_score_response)\<rparr>"

text \<open>
  A run that draws the keys 1, 2, 3, ... and is given a score on the attempts 2, 5 and 7 and
  \<open>{"success": false, "error": "FID not found"}\<close> on the others.
\<close>

definition scored_response :: json where
  "scored_response =
     JObj [(''success'', JBool True),
           (''data'', JObj [(''overallScore'', JInt 50), (''tier'', JStr ''B'')])]"

definition not_found_response :: json where
  "not_found_response = JObj [(''success'', JBool False), (''error'', JStr ''FID not found'')]"

definition scenario_env :: env where
  "scenario_env =
     \<lparr>draw = (\<lambda>n. n),
      neynar_curl = (\<lambda>n. Raised ''timed out''),
      score_curl = (\<lambda>n. Completed 0 (if n \<in> {2, 5, 7} then ''scored'' else ''missing'')),
      json_decoder = (\<lambda>s. Inr (if s = ''scored'' then scored_response else not_found_response))\<rparr>"


text \<open>The verification service answers with one user, whose \<open>fid\<close> is 3.\<close>

definition one_user_body :: string where
  "one_user_body = ''{\"users\":[{\"fid\":3}]}''"

definition one_user_decoder :: "string \<Rightarrow> string + json" where
  "one_user_decoder s =
     (if s = one_user_body
      then Inr (JObj [(''users'', JArr [JObj [(''fid'', JInt 3)]])])
      else Inl ''Expecting value'')"

text \<open>A leaderboard of five entries; the first and the third have a \<open>username\<close>.\<close>

definition board_entry :: "int \<Rightarrow> json \<Rightarrow> json" where
  "board_entry n username =
     JObj [(''rank'', JInt n), (''fid'', JInt (100 + n)), (''overallScore'', JInt (90 - n)),
           (''tier'', JStr ''A''), (''username'', username), (''displayName'', JNull)]"

definition five_entries :: "json list" where
  "five_entries =
     [board_entry 1 (JStr ''alice''), board_entry 2 JNull, board_entry 3 (JStr ''carol''),
      board_entry 4 (JStr []), board_entry 5 JNull]"

definition five_board_decoder :: "string \<Rightarrow> string + json" where
  "five_board_decoder s =
     Inr (JObj [(''success'', JBool True),
                (''data'', JObj [(''leaderboard'', JArr five_entries)])])"

text \<open>Every request of the run over FIDs 1 to 100 times out.\<close>

definition all_timeouts :: "int \<Rightarrow> run_result" where
  "all_timeouts fid = Raised ''timed out''"

section \<open>Float arithmetic on the weights\<close>

lemma bitlen_eqI:
  assumes "2 ^ k \<le> n" and "n < 2 ^ Suc k"
  shows "bitlen n = int k + 1"
proof -
  from assms(1) have pos: "0 < n" by (smt (verit) zero_less_power)
  from bitlen_bounds[OF pos] have b: "2 ^ nat (bitlen n - 1) \<le> n" "n < 2 ^ nat (bitlen n)"
    by simp_all
  have "(2::int) ^ nat (bitlen n - 1) < 2 ^ Suc k" using b(1) assms(2) by linarith
  then have 1: "nat (bitlen n - 1) < Suc k"
    by (simp only: power_strict_increasing_iff one_less_numeral_iff semiring_norm)
  have "(2::int) ^ k < 2 ^ nat (bitlen n)" using b(2) assms(1) by linarith
  then have 2: "k < nat (bitlen n)"
    by (simp only: power_strict_increasing_iff one_less_numeral_iff semiring_norm)
  from 1 2 show ?thesis by linarith
qed

lemma float_exponent_eq:
  assumes lo: "2 powi e \<le> \<bar>x\<bar>" and hi: "\<bar>x\<bar> < 2 powi (e + 1)" and e: "- 1022 \<le> e"
  shows "float_exponent x = e"
proof -
  define S :: real where "S = 2 ^ 1074"
  define k where "k = nat (e + 1074)"
  have k: "int k = e + 1074" using e by (simp add: k_def)
  have Spos: "0 < S" unfolding S_def by (rule zero_less_power) simp
  have S: "S = 2 powi 1074" unfolding S_def by (metis of_nat_numeral power_int_of_nat)
  have pk: "(2::real) ^ k = 2 powi e * S"
  proof -
    have "(2::real) ^ k = 2 powi (e + 1074)" by (metis k power_int_of_nat)
    also have "\<dots> = 2 powi e * 2 powi 1074" by (rule power_int_add) simp
    finally show ?thesis by (simp only: S)
  qed
  have pk1: "(2::real) ^ Suc k = 2 powi (e + 1) * S"
  proof -
    have "int (Suc k) = (e + 1) + 1074" using k by simp
    then have "(2::real) ^ Suc k = 2 powi ((e + 1) + 1074)" by (metis power_int_of_nat)
    also have "\<dots> = 2 powi (e + 1) * 2 powi 1074" by (rule power_int_add) simp
    finally show ?thesis by (simp only: S)
  qed
  let ?n = "\<lfloor>\<bar>x\<bar> * S\<rfloor>"
  have "(2::real) ^ k \<le> \<bar>x\<bar> * S"
    unfolding pk using lo Spos by (rule_tac mult_right_mono) simp_all
  then have "of_int (2 ^ k) \<le> \<bar>x\<bar> * S" by simp
  then have 1: "2 ^ k \<le> ?n" by (simp only: le_floor_iff)
  have "\<bar>x\<bar> * S < (2::real) ^ Suc k"
    unfolding pk1 using hi Spos by (rule_tac mult_strict_right_mono) simp_all
  then have "\<bar>x\<bar> * S < of_int (2 ^ Suc k)" by simp
  then have 2: "?n < 2 ^ Suc k" by (simp only: floor_less_iff)
  from bitlen_eqI[OF 1 2] k have "bitlen ?n - 1075 = e" by linarith
  moreover have "float_exponent x = max (bitlen ?n - 1075) (- 1022)"
    by (simp only: float_exponent_def S_def)
  ultimately show ?thesis using e by (simp only: max_def) simp
qed

lemma float_round_eval:
  assumes "2 powi e \<le> \<bar>x\<bar>" and "\<bar>x\<bar> < 2 powi (e + 1)" and "- 1022 \<le> e"
  shows "float_round x = of_int (round_half_even (x / 2 powi (e - 52))) * 2 powi (e - 52)"
  by (simp only: float_round_def float_exponent_eq[OF assms] Let_def)

text \<open>The literals \<open>0.4\<close>, \<open>0.3\<close>, \<open>0.2\<close>, \<open>0.1\<close>.\<close>

lemma float_4_10: "float_round (4 / 10) = 3602879701896397 / 9007199254740992"
  by (subst float_round_eval[of "- 2"]) (simp_all add: round_half_even_def power_int_minus)

lemma float_3_10: "float_round (3 / 10) = 5404319552844595 / 18014398509481984"
  by (subst float_round_eval[of "- 2"]) (simp_all add: round_half_even_def power_int_minus)

lemma float_2_10: "float_round (2 / 10) = 3602879701896397 / 18014398509481984"
  by (subst float_round_eval[of "- 3"]) (simp_all add: round_half_even_def power_int_minus)

lemma float_1_10: "float_round (1 / 10) = 3602879701896397 / 36028797018963968"
  by (subst float_round_eval[of "- 4"]) (simp_all add: round_half_even_def power_int_minus)

text \<open>The values \<open>cumulative\<close> takes: 0.4 or 0.3, 0.7, 0.8999999999999999, 0.9999999999999999.\<close>

lemma sum_0_4: "float_add 0 (3602879701896397 / 9007199254740992) = 3602879701896397 / 9007199254740992"
  unfolding float_add_def
  by (subst float_round_eval[of "- 2"]) (simp_all add: round_half_even_def power_int_minus)

lemma sum_0_3: "float_add 0 (5404319552844595 / 18014398509481984) = 5404319552844595 / 18014398509481984"
  unfolding float_add_def
  by (subst float_round_eval[of "- 2"]) (simp_all add: round_half_even_def power_int_minus)

lemma sum_4_3:
  "float_add (3602879701896397 / 9007199254740992) (5404319552844595 / 18014398509481984) =
     3152519739159347 / 4503599627370496"
  unfolding float_add_def
  by (subst float_round_eval[of "- 1"]) (simp_all add: round_half_even_def power_int_minus)

lemma sum_3_4:
  "float_add (5404319552844595 / 18014398509481984) (3602879701896397 / 9007199254740992) =
     3152519739159347 / 4503599627370496"
  unfolding float_add_def
  by (subst float_round_eval[of "- 1"]) (simp_all add: round_half_even_def power_int_minus)

lemma sum_7_2:
  "float_add (3152519739159347 / 4503599627370496) (3602879701896397 / 18014398509481984) =
     2026619832316723 / 2251799813685248"
  unfolding float_add_def
  by (subst float_round_eval[of "- 1"]) (simp_all add: round_half_even_def power_int_minus)

lemma sum_9_1:
  "float_add (2026619832316723 / 2251799813685248) (3602879701896397 / 36028797018963968) =
     9007199254740991 / 9007199254740992"
  unfolding float_add_def
  by (subst float_round_eval[of "- 1"]) (simp_all add: round_half_even_def power_int_minus)

section \<open>The sampler\<close>

lemma randint_in_range:
  assumes "a \<le> b"
  shows "\<exists>k. randint a b u = Inr k \<and> a \<le> k \<and> k \<le> b"
proof -
  have pos: "0 < nat (b - a + 1)" using assms by simp
  then have "u mod nat (b - a + 1) < nat (b - a + 1)" by (rule mod_less_divisor)
  then have "int (u mod nat (b - a + 1)) < b - a + 1" using pos by linarith
  then show ?thesis using assms by (simp add: randint_def)
qed

lemma select_range_bulk:
  "select_range bulk_FID_RANGES 0 rand =
     (if rand \<le> 5404319552844595 / 18014398509481984 then Some (1, 1000)
      else if rand \<le> 3152519739159347 / 4503599627370496 then Some (1000, 5000)
      else if rand \<le> 2026619832316723 / 2251799813685248 then Some (5000, 20000)
      else if rand \<le> 9007199254740991 / 9007199254740992 then Some (20000, 50000)
      else None)"
  unfolding bulk_FID_RANGES_def float_4_10 float_3_10 float_2_10 float_1_10 select_range.simps
    sum_0_3 sum_3_4 sum_7_2 sum_9_1
  by (rule refl)

lemma select_range_simple:
  "select_range simple_FID_RANGES 0 rand =
     (if rand \<le> 3602879701896397 / 9007199254740992 then Some (1, 1000)
      else if rand \<le> 3152519739159347 / 4503599627370496 then Some (1000, 5000)
      else if rand \<le> 2026619832316723 / 2251799813685248 then Some (5000, 15000)
      else if rand \<le> 9007199254740991 / 9007199254740992 then Some (15000, 30000)
      else None)"
  unfolding simple_FID_RANGES_def float_4_10 float_3_10 float_2_10 float_1_10 select_range.simps
    sum_0_4 sum_4_3 sum_7_2 sum_9_1
  by (rule refl)

text \<open>
  \<open>random.random()\<close> returns \<open>k / 2 ^ 53\<close> with \<open>k < 2 ^ 53\<close> (\<open>2 ^ 53 = 9007199254740992\<close>), and
  the last value of \<open>cumulative\<close> is the largest of these: the loop over either table always
  returns, and the line after it is never reached.
\<close>

lemma fallback_never_taken:
  assumes "rand = of_int k / 9007199254740992" and "k < 9007199254740992"
  shows "select_range bulk_FID_RANGES 0 rand \<noteq> None \<and> select_range simple_FID_RANGES 0 rand \<noteq> None"
proof -
  from assms(2) have "k \<le> 9007199254740991" by linarith
  then have "(of_int k :: real) \<le> of_int 9007199254740991" by (simp only: of_int_le_iff)
  then have "(of_int k :: real) \<le> 9007199254740991" by simp
  with assms(1) have "rand \<le> 9007199254740991 / 9007199254740992"
    by (simp add: divide_right_mono)
  then show ?thesis by (simp add: select_range_bulk select_range_simple)
qed

lemma generate_in_selected:
  assumes "select_range tbl 0 rand = Some (lo, hi)" and "lo \<le> hi"
  shows "\<exists>k. generate_weighted_fid tbl fb rand u = Inr k \<and> lo \<le> k \<and> k \<le> hi"
  using assms randint_in_range[of lo hi u] by (simp add: generate_weighted_fid_def)

lemma generate_in_fallback:
  assumes "select_range tbl 0 rand = None" and "lo \<le> hi"
  shows "\<exists>k. generate_weighted_fid tbl (lo, hi) rand u = Inr k \<and> lo \<le> k \<and> k \<le> hi"
  using assms randint_in_range[of lo hi u] by (simp add: generate_weighted_fid_def)

text \<open>
  C6, as amended. Whatever the two random values, the key lies in the range the table walk
  selected, or in the fallback range, with both bounds included.
\<close>

theorem key_within_inclusive_bounds:
  "(\<exists>k. bulk_generate_weighted_fid rand u = Inr k \<and>
        (case select_range bulk_FID_RANGES 0 rand of
           Some (lo, hi) \<Rightarrow> lo \<le> k \<and> k \<le> hi
         | None \<Rightarrow> 20000 \<le> k \<and> k \<le> 50000)) \<and>
   (\<exists>k. simple_generate_weighted_fid rand u = Inr k \<and>
        (case select_range simple_FID_RANGES 0 rand of
           Some (lo, hi) \<Rightarrow> lo \<le> k \<and> k \<le> hi
         | None \<Rightarrow> 1 \<le> k \<and> k \<le> 5000))"
proof
  show "\<exists>k. bulk_generate_weighted_fid rand u = Inr k \<and>
        (case select_range bulk_FID_RANGES 0 rand of
           Some (lo, hi) \<Rightarrow> lo \<le> k \<and> k \<le> hi
         | None \<Rightarrow> 20000 \<le> k \<and> k \<le> 50000)"
  proof (cases "select_range bulk_FID_RANGES 0 rand")
    case None
    from generate_in_fallback[OF None, of 20000 50000 u] None show ?thesis
      by (simp add: bulk_generate_weighted_fid_def)
  next
    case (Some r)
    obtain lo hi where r: "r = (lo, hi)" by (cases r)
    have "lo \<le> hi" using Some r by (simp add: select_range_bulk split: if_splits)
    from generate_in_selected[OF Some[unfolded r] this, of "(20000, 50000)" u] Some r
    show ?thesis by (simp add: bulk_generate_weighted_fid_def)
  qed
  show "\<exists>k. simple_generate_weighted_fid rand u = Inr k \<and>
        (case select_range simple_FID_RANGES 0 rand of
           Some (lo, hi) \<Rightarrow> lo \<le> k \<and> k \<le> hi
         | None \<Rightarrow> 1 \<le> k \<and> k \<le> 5000)"
  proof (cases "select_range simple_FID_RANGES 0 rand")
    case None
    from generate_in_fallback[OF None, of 1 5000 u] None show ?thesis
      by (simp add: simple_generate_weighted_fid_def)
  next
    case (Some r)
    obtain lo hi where r: "r = (lo, hi)" by (cases r)
    have "lo \<le> hi" using Some r by (simp add: select_range_simple split: if_splits)
    from generate_in_selected[OF Some[unfolded r] this, of "(1, 5000)" u] Some r
    show ?thesis by (simp add: simple_generate_weighted_fid_def)
  qed
qed

theorem upper_bound_is_drawn:
  "select_range bulk_FID_RANGES 0 (1 / 8) = Some (1, 1000) \<and>
   bulk_generate_weighted_fid (1 / 8) 999 = Inr 1000 \<and> \<not> ((1000::int) < 1000)"
  by (simp add: bulk_generate_weighted_fid_def generate_weighted_fid_def
      select_range_bulk randint_def)

section \<open>The \<open>while\<close> loop\<close>


lemma py_while_invariant:
  assumes run: "py_while c b s = Some r"
    and init: "I s"
    and step: "\<And>t t'. I t \<Longrightarrow> c t \<Longrightarrow> b t = Inr t' \<Longrightarrow> I t'"
  shows "case r of Inl e \<Rightarrow> (\<exists>t. I t \<and> c t \<and> b t = Inl e) | Inr s' \<Rightarrow> I s' \<and> \<not> c s'"
proof -
  let ?P = "\<lambda>c b s r. (\<forall>t t'. I t \<longrightarrow> c t \<longrightarrow> b t = Inr t' \<longrightarrow> I t') \<longrightarrow> I s \<longrightarrow>
        (case r of Inl e \<Rightarrow> (\<exists>t. I t \<and> c t \<and> b t = Inl e) | Inr s' \<Rightarrow> I s' \<and> \<not> c s')"
  have "?P c b s r"
  proof (rule py_while.raw_induct[where P = ?P, OF _ run])
    fix loop c b s r
    assume IH: "\<And>c b s r. loop c b s = Some r \<Longrightarrow> ?P c b s r"
      and eq: "(if c s then case b s of Inl e \<Rightarrow> Some (Inl e) | Inr s' \<Rightarrow> loop c b s'
                else Some (Inr s)) = Some r"
    show "?P c b s r"
    proof (intro impI)
      assume st: "\<forall>t t'. I t \<longrightarrow> c t \<longrightarrow> b t = Inr t' \<longrightarrow> I t'" and i: "I s"
      show "case r of Inl e \<Rightarrow> (\<exists>t. I t \<and> c t \<and> b t = Inl e) | Inr s' \<Rightarrow> I s' \<and> \<not> c s'"
      proof (cases "c s")
        case False
        with eq i show ?thesis by auto
      next
        case True
        show ?thesis
        proof (cases "b s")
          case (Inl e)
          with True eq i show ?thesis by auto
        next
          case (Inr s')
          with True eq have "loop c b s' = Some r" by simp
          moreover have "I s'" using st i True Inr by blast
          ultimately show ?thesis using IH st by blast
        qed
      qed
    qed
  qed
  with init step show ?thesis by blast
qed

section \<open>One iteration\<close>

lemma iteration_seen:
  "draw env (attempts st + 1) \<in> processed_fids st \<Longrightarrow>
   iteration probe env st = Inr (st\<lparr>attempts := attempts st + 1\<rparr>)"
  by (simp add: iteration_def)

lemma bulk_probe_effect:
  "bulk_probe env fid st = Inr st' \<Longrightarrow>
   attempts st' = attempts st \<and>
   successful_adds st \<le> successful_adds st' \<and> successful_adds st' \<le> successful_adds st + 1"
  by (auto simp: bulk_probe_def emit_def Let_def split: if_splits sum.splits)

lemma simple_probe_effect:
  "simple_probe env fid st = Inr st' \<Longrightarrow>
   attempts st' = attempts st \<and>
   successful_adds st \<le> successful_adds st' \<and> successful_adds st' \<le> successful_adds st + 1"
  by (auto simp: simple_probe_def emit_def Let_def split: if_splits sum.splits json.splits)

lemma targeted_probe_effect:
  "targeted_probe env fid st = Inr st' \<Longrightarrow>
   attempts st' = attempts st \<and>
   successful_adds st \<le> successful_adds st' \<and> successful_adds st' \<le> successful_adds st + 1"
  by (auto simp: targeted_probe_def emit_def Let_def split: if_splits sum.splits)

lemma iteration_effect:
  assumes "probe \<in> {bulk_probe, simple_probe, targeted_probe}"
    and "iteration probe env st = Inr st'"
  shows "attempts st' = attempts st + 1 \<and>
         successful_adds st \<le> successful_adds st' \<and> successful_adds st' \<le> successful_adds st + 1"
proof (cases "draw env (attempts st + 1) \<in> processed_fids st")
  case True
  from iteration_seen[OF True, of probe] assms(2) show ?thesis by auto
next
  case False
  let ?st = "st\<lparr>attempts := attempts st + 1,
                 processed_fids := insert (draw env (attempts st + 1)) (processed_fids st)\<rparr>"
  from False assms(2) have p: "probe env (draw env (attempts st + 1)) ?st = Inr st'"
    by (simp add: iteration_def Let_def)
  from assms(1) consider "probe = bulk_probe" | "probe = simple_probe" | "probe = targeted_probe"
    by blast
  then show ?thesis
  proof cases
    case 1
    with p bulk_probe_effect[of env _ ?st st'] show ?thesis by simp
  next
    case 2
    with p simple_probe_effect[of env _ ?st st'] show ?thesis by simp
  next
    case 3
    with p targeted_probe_effect[of env _ ?st st'] show ?thesis by simp
  qed
qed

text \<open>
  C1, as amended. In the three scripts an iteration whose key is already in \<open>processed_fids\<close>
  leaves the loop body at \<open>continue\<close>: nothing is fetched, printed or slept and the success
  counter is unchanged, but \<open>attempts\<close> has been incremented before the test. So \<open>attempts\<close>
  grows by one on every iteration that completes, seen key or not.
\<close>

theorem seen_key_consumes_attempt:
  "probe \<in> {bulk_probe, simple_probe, targeted_probe} \<Longrightarrow>
   (draw env (attempts st + 1) \<in> processed_fids st \<longrightarrow>
      iteration probe env st = Inr (st\<lparr>attempts := attempts st + 1\<rparr>)) \<and>
   (\<forall>st'. iteration probe env st = Inr st' \<longrightarrow> attempts st' = attempts st + 1)"
  using iteration_seen[of env st probe] iteration_effect[of probe env st] by blast

theorem seen_key_consumes_attempt_witness:
  "simple_probe \<in> {bulk_probe, simple_probe, targeted_probe} \<and>
   draw seen_env (attempts seen_state + 1) \<in> processed_fids seen_state \<and>
   iteration simple_probe seen_env seen_state =
     Inr (seen_state\<lparr>attempts := attempts seen_state + 1\<rparr>) \<and>
   trace (seen_state\<lparr>attempts := attempts seen_state + 1\<rparr>) = trace seen_state"
  using seen_key_consumes_attempt[of simple_probe seen_env seen_state]
  by (simp add: seen_env_def seen_state_def)

theorem seen_key_attempt_counted:
  "attempts seen_state = 3 \<and> draw seen_env 4 \<in> processed_fids seen_state \<and>
   iteration bulk_probe seen_env seen_state = Inr (seen_state\<lparr>attempts := 4\<rparr>) \<and>
   iteration simple_probe seen_env seen_state = Inr (seen_state\<lparr>attempts := 4\<rparr>) \<and>
   iteration targeted_probe seen_env seen_state = Inr (seen_state\<lparr>attempts := 4\<rparr>)"
  by (simp add: iteration_def seen_env_def seen_state_def)


section \<open>The whole loop\<close>













lemma loop_counters:
  assumes probe: "probe \<in> {bulk_probe, simple_probe, targeted_probe}"
    and run: "py_while (loop_cond TARGET_USERS max_attempts) (iteration probe env) st = Some (Inr st')"
    and init: "successful_adds st \<le> attempts st" "attempts st \<le> max_attempts"
  shows "successful_adds st' \<le> attempts st' \<and> attempts st' \<le> max_attempts"
proof -
  let ?c = "loop_cond TARGET_USERS max_attempts" and ?b = "iteration probe env"
  let ?I = "\<lambda>t. successful_adds t \<le> attempts t \<and> attempts t \<le> max_attempts"
  have step: "?I t'" if "?I t" "?c t" "?b t = Inr t'" for t t'
    using iteration_effect[OF probe that(3)] that(1,2) by (simp add: loop_cond_def)
  have "case Inr st' of Inl e \<Rightarrow> (\<exists>t. ?I t \<and> ?c t \<and> ?b t = Inl e) | Inr s' \<Rightarrow> ?I s' \<and> \<not> ?c s'"
    by (rule py_while_invariant[OF run _ step]) (use init in simp_all)
  then show ?thesis by simp
qed

lemma scenario_run:
  "\<exists>st'. targeted_loop 3 10 scenario_env init_state = Some (Inr st') \<and>
         successful_adds st' = 3 \<and> attempts st' = 7"
  by (simp add: targeted_loop_def py_while.simps loop_cond_def iteration_def targeted_probe_def
      get_creator_score_def scenario_env_def init_state_def emit_def scored_response_def
      not_found_response_def dict_get_def float_limit_def Let_def)

text \<open>
  C4. When the loop is left by its condition, having started from the counters at zero with
  a budget that is not negative, \<open>successful_adds \<le> attempts \<le> max_attempts\<close>.
\<close>

theorem counters_at_stopped:
  assumes "0 \<le> max_attempts"
    and "loop \<in> {bulk_loop, simple_loop, targeted_loop}"
    and "loop TARGET_USERS max_attempts env init_state = Some (Inr st')"
  shows "successful_adds st' \<le> attempts st' \<and> attempts st' \<le> max_attempts"
proof -
  from assms(2) consider "loop = bulk_loop" | "loop = simple_loop" | "loop = targeted_loop"
    by blast
  then show ?thesis
  proof cases
    case 1
    with assms(3) show ?thesis
      using loop_counters[of bulk_probe TARGET_USERS max_attempts env init_state st'] assms(1)
      by (simp add: bulk_loop_def init_state_def)
  next
    case 2
    with assms(3) show ?thesis
      using loop_counters[of simple_probe TARGET_USERS max_attempts env init_state st'] assms(1)
      by (simp add: simple_loop_def init_state_def)
  next
    case 3
    with assms(3) show ?thesis
      using loop_counters[of targeted_probe TARGET_USERS max_attempts env init_state st'] assms(1)
      by (simp add: targeted_loop_def init_state_def)
  qed
qed

theorem counters_at_stopped_witness:
  "(0::int) \<le> 10 \<and> targeted_loop \<in> {bulk_loop, simple_loop, targeted_loop} \<and>
   (\<exists>st'. targeted_loop 3 10 scenario_env init_state = Some (Inr st') \<and>
          successful_adds st' = 3 \<and> attempts st' = 7 \<and>
          successful_adds st' \<le> attempts st' \<and> attempts st' \<le> 10)"
proof -
  from scenario_run obtain st' where
    run: "targeted_loop 3 10 scenario_env init_state = Some (Inr st')"
    and vals: "successful_adds st' = 3" "attempts st' = 7" by blast
  have "successful_adds st' \<le> attempts st' \<and> attempts st' \<le> 10"
    using counters_at_stopped[of 10 targeted_loop 3 scenario_env st'] run by simp
  with run vals show ?thesis by auto
qed

section \<open>Outcomes of the fetch\<close>

text \<open>
  C2, evaluated on the code. The service answers key 42 with a null \<open>overallScore\<close>.
  \<^verbatim>\<open>simple_bulk_populate.py\<close> counts the answer as a success (\<open>successful_adds\<close> goes from 0
  to 1); \<^verbatim>\<open>targeted_bulk_populate.py\<close> prints "Inactive" and leaves the counter at 0.
\<close>

theorem null_score_counted_by_simple:
  "iteration simple_probe null_score_env init_state =
     Inr \<lparr>successful_adds = 1, attempts = 1, processed_fids = {42},
          trace = [Testing 1 42, Scored JNull (JStr ''D'') 1, Sleep (3 / 2)]\<rparr> \<and>
   iteration targeted_probe null_score_env init_state =
     Inr \<lparr>successful_adds = 0, attempts = 1, processed_fids = {42},
          trace = [Testing 1 42, Inactive, Sleep 1]\<rparr>"
  by (simp add: iteration_def simple_probe_def targeted_probe_def get_creator_score_def
      null_score_env_def null_score_response_def init_state_def emit_def dict_get_def Let_def)

lemma targeted_counts_scores_only:
  assumes "iteration targeted_probe env st = Inr st'"
    and "successful_adds st' \<noteq> successful_adds st"
  shows "\<exists>kvs sd. get_creator_score (json_decoder env) (score_curl env (attempts st + 1)) = JObj kvs \<and>
           truthy (dict_get kvs ''success'' JNull) \<and> map_of kvs ''data'' = Some (JObj sd) \<and>
           dict_get sd ''overallScore'' JNull \<noteq> JNull"
proof (cases "draw env (attempts st + 1) \<in> processed_fids st")
  case True
  from iteration_seen[OF True, of targeted_probe] assms show ?thesis by auto
next
  case False
  let ?r = "get_creator_score (json_decoder env) (score_curl env (attempts st + 1))"
  from False assms(1) have p: "targeted_probe env (draw env (attempts st + 1))
      (st\<lparr>attempts := attempts st + 1,
          processed_fids := insert (draw env (attempts st + 1)) (processed_fids st)\<rparr>) = Inr st'"
    by (simp add: iteration_def Let_def)
  obtain kvs where kvs: "?r = JObj kvs"
    using p by (cases ?r) (auto simp: targeted_probe_def Let_def)
  show ?thesis
  proof (cases "truthy (dict_get kvs ''success'' JNull)")
    case False
    with p kvs assms(2) show ?thesis
      by (auto simp: targeted_probe_def emit_def Let_def split: if_splits sum.splits)
  next
    case ok: True
    obtain d where d: "map_of kvs ''data'' = Some d"
      using p kvs ok by (cases "map_of kvs ''data''") (auto simp: targeted_probe_def Let_def)
    obtain sd where sd: "d = JObj sd"
      using p kvs ok d by (cases d) (auto simp: targeted_probe_def Let_def)
    have "dict_get sd ''overallScore'' JNull \<noteq> JNull"
      using p kvs ok d sd assms(2)
      by (auto simp: targeted_probe_def emit_def Let_def split: if_splits sum.splits)
    with kvs ok d sd show ?thesis by blast
  qed
qed

text \<open>
  C8. An answer whose \<open>success\<close> is false and whose \<open>error\<close> is a string containing
  "not found" or "invalid", in any letter case, makes the iteration of
  \<^verbatim>\<open>simple_bulk_populate.py\<close> print "Invalid FID", sleep the rate-limit delay and end normally,
  with one more attempt and the same number of successes; \<open>force_profile_update\<close> of
  \<^verbatim>\<open>update_all_profiles.py\<close> prints "Not found/invalid" for it and returns \<open>False\<close>.
\<close>

theorem not_found_classified_run_continues:
  assumes "draw env (attempts st + 1) \<notin> processed_fids st"
    and "get_creator_score (json_decoder env) (score_curl env (attempts st + 1)) = JObj kvs"
    and "\<not> truthy (dict_get kvs ''success'' JNull)"
    and "map_of kvs ''error'' = Some (JStr msg)"
    and "sublist ''not found'' (lower msg) \<or> sublist ''invalid'' (lower msg)"
  shows "(\<exists>st'. iteration simple_probe env st = Inr st' \<and>
            successful_adds st' = successful_adds st \<and> attempts st' = attempts st + 1 \<and>
            trace st' = trace st @
              [Testing (attempts st + 1) (draw env (attempts st + 1)), InvalidFID, Sleep (3 / 2)] @
              (if (attempts st + 1) mod 20 = 0
               then [Progress (successful_adds st) (attempts st + 1)] else [])) \<and>
         (\<forall>json_loads out. json_loads out = Inr (JObj kvs) \<longrightarrow>
            force_profile_update json_loads (Completed 0 out) = (NotFoundLine, False))"
proof
  show "\<exists>st'. iteration simple_probe env st = Inr st' \<and>
            successful_adds st' = successful_adds st \<and> attempts st' = attempts st + 1 \<and>
            trace st' = trace st @
              [Testing (attempts st + 1) (draw env (attempts st + 1)), InvalidFID, Sleep (3 / 2)] @
              (if (attempts st + 1) mod 20 = 0
               then [Progress (successful_adds st) (attempts st + 1)] else [])"
    using assms
    by (simp add: iteration_def simple_probe_def emit_def dict_get_def Let_def)
  show "\<forall>json_loads out. json_loads out = Inr (JObj kvs) \<longrightarrow>
            force_profile_update json_loads (Completed 0 out) = (NotFoundLine, False)"
    using assms(3-5) by (simp add: force_profile_update_def dict_get_def)
qed

theorem not_found_classified_run_continues_witness:
  "draw scenario_env (attempts init_state + 1) \<notin> processed_fids init_state \<and>
   get_creator_score (json_decoder scenario_env) (score_curl scenario_env (attempts init_state + 1))
     = JObj [(''success'', JBool False), (''error'', JStr ''FID not found'')] \<and>
   sublist ''not found'' (lower ''FID not found'') \<and>
   iteration simple_probe scenario_env init_state =
     Inr \<lparr>successful_adds = 0, attempts = 1, processed_fids = {1},
          trace = [Testing 1 1, InvalidFID, Sleep (3 / 2)]\<rparr> \<and>
   force_profile_update (json_decoder scenario_env) (Completed 0 ''missing'') = (NotFoundLine, False)"
proof -
  let ?kvs = "[(''success'', JBool False), (''error'', JStr ''FID not found'')]"
  have a: "draw scenario_env (attempts init_state + 1) \<notin> processed_fids init_state"
    by (simp add: scenario_env_def init_state_def)
  have b: "get_creator_score (json_decoder scenario_env)
             (score_curl scenario_env (attempts init_state + 1)) = JObj ?kvs"
    by (simp add: get_creator_score_def scenario_env_def init_state_def not_found_response_def)
  have c: "\<not> truthy (dict_get ?kvs ''success'' JNull)" by (simp add: dict_get_def)
  have d: "map_of ?kvs ''error'' = Some (JStr ''FID not found'')" by simp
  have e: "sublist ''not found'' (lower ''FID not found'')
           \<or> sublist ''invalid'' (lower ''FID not found'')"
    by (simp add: lower_def lower_char_def sublist_Cons_right)
  have f: "json_decoder scenario_env ''missing'' = Inr (JObj ?kvs)"
    by (simp add: scenario_env_def not_found_response_def)
  from not_found_classified_run_continues[OF a b c d e] f
  obtain st' where st': "iteration simple_probe scenario_env init_state = Inr st'"
    "successful_adds st' = successful_adds init_state" "attempts st' = attempts init_state + 1"
    and fpu: "force_profile_update (json_decoder scenario_env) (Completed 0 ''missing'')
              = (NotFoundLine, False)"
    by blast
  have g: "iteration simple_probe scenario_env init_state =
     Inr \<lparr>successful_adds = 0, attempts = 1, processed_fids = {1},
          trace = [Testing 1 1, InvalidFID, Sleep (3 / 2)]\<rparr>"
    by (simp add: iteration_def simple_probe_def get_creator_score_def scenario_env_def
        not_found_response_def init_state_def emit_def dict_get_def Let_def lower_def
        lower_char_def sublist_Cons_right)
  have h: "sublist ''not found'' (lower ''FID not found'')"
    by (simp add: lower_def lower_char_def sublist_Cons_right)
  from a b g h fpu show ?thesis by simp
qed

section \<open>The existence check\<close>

lemma check_neynar_true_iff:
  "check_neynar_user_exists json_loads result fid \<longleftrightarrow>
     (\<exists>body kvs user rest v.
        result = Completed 0 (body @ ''200'') \<and> json_loads body = Inr (JObj kvs) \<and>
        map_of kvs ''users'' = Some (JArr (JObj user # rest)) \<and>
        map_of user ''fid'' = Some v \<and> py_eq_int v fid)"
proof
  assume "\<exists>body kvs user rest v.
        result = Completed 0 (body @ ''200'') \<and> json_loads body = Inr (JObj kvs) \<and>
        map_of kvs ''users'' = Some (JArr (JObj user # rest)) \<and>
        map_of user ''fid'' = Some v \<and> py_eq_int v fid"
  then show "check_neynar_user_exists json_loads result fid"
    by (auto simp: check_neynar_user_exists_def dict_get_def)
next
  assume ok: "check_neynar_user_exists json_loads result fid"
  then obtain rc out where res: "result = Completed rc out"
    by (cases result) (auto simp: check_neynar_user_exists_def)
  let ?body = "take (length out - 3) out"
  from ok res have rc: "rc = 0" and status: "drop (length out - 3) out = ''200''"
    by (auto simp: check_neynar_user_exists_def Let_def split: if_splits)
  have out: "out = ?body @ ''200''" using status append_take_drop_id[of "length out - 3" out] by simp
  from ok res rc status obtain data where data: "json_loads ?body = Inr data"
    by (cases "json_loads ?body") (auto simp: check_neynar_user_exists_def Let_def)
  from ok res rc status data obtain kvs where kvs: "data = JObj kvs"
    by (cases data) (auto simp: check_neynar_user_exists_def Let_def)
  let ?users = "dict_get kvs ''users'' (JArr [])"
  from ok res rc status data kvs
  have rest: "case py_len ?users of Inl e \<Rightarrow> False
     | Inr n \<Rightarrow> if 0 < n then (case py_first ?users of Inl e \<Rightarrow> False
          | Inr user \<Rightarrow> (case py_get user ''fid'' JNull of Inl e \<Rightarrow> False | Inr v \<Rightarrow> py_eq_int v fid))
        else False"
    by (simp add: check_neynar_user_exists_def Let_def)
  then obtain user tl where users: "?users = JArr (JObj user # tl)"
    and eq: "py_eq_int (dict_get user ''fid'' JNull) fid"
  proof (cases ?users)
    case (JArr xs)
    with rest obtain x tl where xs: "xs = x # tl" by (cases xs) auto
    with rest JArr obtain user where "x = JObj user" by (cases x) auto
    with rest JArr xs that show ?thesis by auto
  next
    case (JStr cs)
    with rest show ?thesis by (cases cs) auto
  qed (auto split: if_splits)
  from users have m: "map_of kvs ''users'' = Some (JArr (JObj user # tl))"
    by (auto simp: dict_get_def split: option.splits)
  from eq obtain v where v: "map_of user ''fid'' = Some v" "py_eq_int v fid"
    by (auto simp: dict_get_def split: option.splits)
  from res rc out data kvs m v show "\<exists>body kvs user rest v.
        result = Completed 0 (body @ ''200'') \<and> json_loads body = Inr (JObj kvs) \<and>
        map_of kvs ''users'' = Some (JArr (JObj user # rest)) \<and>
        map_of user ''fid'' = Some v \<and> py_eq_int v fid"
    by metis
qed

text \<open>
  C7. \<open>check_neynar_user_exists\<close> returns \<open>False\<close> when the client raises or times out, when
  its return code is not 0, when the status is not 200, when the body does not decode, when
  \<open>users\<close> is empty, and when the first user's \<open>fid\<close> is not equal to the key. It returns
  \<open>True\<close> exactly when the call completed with return code 0 and status 200 and the decoded
  body is a dict whose \<open>users\<close> is a list that starts with a dict whose \<open>fid\<close> equals the
  key (\<open>==\<close> of Python).
\<close>

theorem exists_fails_closed:
  "\<not> check_neynar_user_exists json_loads (Raised e) fid \<and>
   (rc \<noteq> 0 \<longrightarrow> \<not> check_neynar_user_exists json_loads (Completed rc out) fid) \<and>
   (drop (length out - 3) out \<noteq> ''200'' \<longrightarrow>
      \<not> check_neynar_user_exists json_loads (Completed rc out) fid) \<and>
   (json_loads (take (length out - 3) out) = Inl msg \<longrightarrow>
      \<not> check_neynar_user_exists json_loads (Completed rc out) fid) \<and>
   (json_loads (take (length out - 3) out) = Inr (JObj kvs) \<and>
    map_of kvs ''users'' = Some (JArr []) \<longrightarrow>
      \<not> check_neynar_user_exists json_loads (Completed rc out) fid) \<and>
   (json_loads (take (length out - 3) out) = Inr (JObj kvs) \<and>
    map_of kvs ''users'' = Some (JArr (JObj user # rest)) \<and>
    \<not> py_eq_int (dict_get user ''fid'' JNull) fid \<longrightarrow>
      \<not> check_neynar_user_exists json_loads (Completed rc out) fid) \<and>
   (check_neynar_user_exists json_loads result fid \<longleftrightarrow>
      (\<exists>body kvs user rest v.
         result = Completed 0 (body @ ''200'') \<and> json_loads body = Inr (JObj kvs) \<and>
         map_of kvs ''users'' = Some (JArr (JObj user # rest)) \<and>
         map_of user ''fid'' = Some v \<and> py_eq_int v fid))"
proof (intro conjI impI)
  show "check_neynar_user_exists json_loads result fid \<longleftrightarrow>
      (\<exists>body kvs user rest v.
         result = Completed 0 (body @ ''200'') \<and> json_loads body = Inr (JObj kvs) \<and>
         map_of kvs ''users'' = Some (JArr (JObj user # rest)) \<and>
         map_of user ''fid'' = Some v \<and> py_eq_int v fid)"
    by (rule check_neynar_true_iff)
qed (auto simp: check_neynar_user_exists_def dict_get_def Let_def)

theorem exists_fails_closed_witness:
  "check_neynar_user_exists one_user_decoder (Completed 0 (one_user_body @ ''200'')) 3 \<and>
   \<not> check_neynar_user_exists one_user_decoder (Completed 0 (one_user_body @ ''200'')) 4 \<and>
   \<not> check_neynar_user_exists one_user_decoder (Completed 0 (one_user_body @ ''404'')) 3 \<and>
   \<not> check_neynar_user_exists one_user_decoder (Completed 7 (one_user_body @ ''200'')) 3 \<and>
   \<not> check_neynar_user_exists one_user_decoder (Completed 0 ''<html>200'') 3 \<and>
   \<not> check_neynar_user_exists one_user_decoder (Raised ''timed out'') 3"
proof -
  let ?kvs = "[(''users'', JArr [JObj [(''fid'', JInt 3)]])]"
  have dec: "one_user_decoder one_user_body = Inr (JObj ?kvs)"
    by (simp add: one_user_decoder_def)
  have bad: "one_user_decoder ''<html>'' = Inl ''Expecting value''"
    by (simp add: one_user_decoder_def one_user_body_def)
  have yes: "check_neynar_user_exists one_user_decoder (Completed 0 (one_user_body @ ''200'')) 3"
    using exists_fails_closed[of one_user_decoder "''''" 3 0 "''''" "''''" "[]" "[]" "[]"
        "Completed 0 (one_user_body @ ''200'')"] dec
    by auto
  have no4: "\<not> check_neynar_user_exists one_user_decoder (Completed 0 (one_user_body @ ''200'')) 4"
    using exists_fails_closed[of one_user_decoder "''''" 4 0 "one_user_body @ ''200''" "''''"
        ?kvs "[(''fid'', JInt 3)]" "[]" "Raised []"] dec
    by (simp add: dict_get_def)
  have no404: "\<not> check_neynar_user_exists one_user_decoder (Completed 0 (one_user_body @ ''404'')) 3"
    using exists_fails_closed[of one_user_decoder "''''" 3 0 "one_user_body @ ''404''" "''''"
        "[]" "[]" "[]" "Raised []"]
    by simp
  have no7: "\<not> check_neynar_user_exists one_user_decoder (Completed 7 (one_user_body @ ''200'')) 3"
    using exists_fails_closed[of one_user_decoder "''''" 3 7 "one_user_body @ ''200''" "''''"
        "[]" "[]" "[]" "Raised []"]
    by simp
  have nohtml: "\<not> check_neynar_user_exists one_user_decoder (Completed 0 ''<html>200'') 3"
    using exists_fails_closed[of one_user_decoder "''''" 3 0 "''<html>200''" "''Expecting value''"
        "[]" "[]" "[]" "Raised []"] bad
    by simp
  have noraise: "\<not> check_neynar_user_exists one_user_decoder (Raised ''timed out'') 3"
    using exists_fails_closed[of one_user_decoder "''timed out''" 3 0 "''''" "''''"
        "[]" "[]" "[]" "Raised []"]
    by simp
  from yes no4 no404 no7 nohtml noraise show ?thesis by blast
qed

section \<open>The leaderboard audit\<close>

lemma has_profile_typed:
  assumes "typed_entry entry"
  shows "has_profile entry = Inr (has_enrichment entry)"
proof -
  from assms obtain kvs where e: "entry = JObj kvs"
    by (cases entry) (auto simp: typed_entry_def)
  from assms e have u: "optional_string (map_of kvs ''username'')"
    and d: "optional_string (map_of kvs ''displayName'')"
    by (auto simp: typed_entry_def)
  from u d show ?thesis
    unfolding e has_profile_def has_enrichment_def field_present_def optional_string_def
    by (auto simp: dict_get_def split: option.splits json.splits)
qed

lemma count_with_profiles_typed:
  "\<forall>entry \<in> set entries. typed_entry entry \<Longrightarrow>
   count_with_profiles entries = Inr (length (filter has_enrichment entries))"
  by (induction entries) (simp_all add: has_profile_typed)

text \<open>
  C9. When the leaderboard request succeeds and its entries are dicts whose \<open>username\<close> and
  \<open>displayName\<close> are absent, null or strings, the first line of the audit reports, as the
  number of entries with profile data, the number of entries whose username or display name
  is a non-empty string, and as the total, the number of entries.
\<close>

theorem audit_counts_enriched:
  assumes "json_loads out = Inr (JObj kvs)"
    and "truthy (dict_get kvs ''success'' JNull)"
    and "map_of kvs ''data'' = Some (JObj d)"
    and "map_of d ''leaderboard'' = Some (JArr entries)"
    and "\<forall>entry \<in> set entries. typed_entry entry"
  shows "\<exists>rest. final_leaderboard_check json_loads (Completed 0 out) =
           Coverage (length (filter has_enrichment entries)) (length entries) # rest"
  using assms(1-4) count_with_profiles_typed[OF assms(5)]
  by (simp add: final_leaderboard_check_def)

theorem audit_counts_enriched_witness:
  "list_all typed_entry five_entries \<and>
   length (filter has_enrichment five_entries) = 2 \<and> length five_entries = 5 \<and>
   (\<exists>rest. final_leaderboard_check five_board_decoder (Completed 0 ''{}'') = Coverage 2 5 # rest)"
proof -
  let ?kvs = "[(''success'', JBool True), (''data'', JObj [(''leaderboard'', JArr five_entries)])]"
  have typed: "\<forall>entry \<in> set five_entries. typed_entry entry"
    by (simp add: five_entries_def board_entry_def typed_entry_def optional_string_def)
  have n: "length (filter has_enrichment five_entries) = 2" "length five_entries = 5"
    by (simp_all add: five_entries_def board_entry_def has_enrichment_def field_present_def)
  have "\<exists>rest. final_leaderboard_check five_board_decoder (Completed 0 ''{}'') =
           Coverage (length (filter has_enrichment five_entries)) (length five_entries) # rest"
    using audit_counts_enriched[of five_board_decoder "''{}''" ?kvs
        "[(''leaderboard'', JArr five_entries)]" five_entries] typed
    by (simp add: five_board_decoder_def dict_get_def)
  with typed n show ?thesis by (simp add: list_all_iff)
qed

section \<open>The run over FIDs 1 to 100\<close>

lemma coverage_printed_say:
  "coverage_printed (say ev t) \<longleftrightarrow>
     coverage_printed t \<or> (case ev of ProfileCoverage w n \<Rightarrow> True | _ \<Rightarrow> False)"
  by (auto simp: coverage_printed_def say_def list_ex_iff)

lemma coverage_printed_update [simp]:
  "coverage_printed (t\<lparr>successful_updates := a\<rparr>) = coverage_printed t"
  "coverage_printed (t\<lparr>failed_updates := a\<rparr>) = coverage_printed t"
  "coverage_printed (t\<lparr>not_found := a\<rparr>) = coverage_printed t"
  "coverage_printed (t\<lparr>with_profiles := a\<rparr>) = coverage_printed t"
  "coverage_printed (t\<lparr>results := rs\<rparr>) = coverage_printed t"
  by (simp_all add: coverage_printed_def)

lemma successful_updates_say [simp]: "successful_updates (say ev t) = successful_updates t"
  by (simp add: say_def)

lemma record_result_returns:
  "record_result fid result t = Inr t' \<Longrightarrow>
   successful_updates t \<le> successful_updates t' \<and> coverage_printed t' = coverage_printed t"
  by (auto simp: record_result_def coverage_printed_say Let_def
      split: update_result.splits json.splits if_splits)

lemma record_result_raises:
  "record_result fid result t = Inl (e, t') \<Longrightarrow> t' = t"
  by (auto simp: record_result_def Let_def split: update_result.splits json.splits if_splits)

lemma record_result_failed:
  "fetch_failed result \<Longrightarrow>
   \<exists>t'. record_result fid result t = Inr t' \<and> successful_updates t' = successful_updates t"
  by (auto simp: record_result_def fetch_failed_def Let_def
      split: update_result.splits json.splits)

lemma for_fids_returns:
  "for_fids fetch fids t = Inr t' \<Longrightarrow>
   successful_updates t \<le> successful_updates t' \<and> coverage_printed t' = coverage_printed t"
proof (induction fids arbitrary: t)
  case Nil
  then show ?case by simp
next
  case (Cons fid fids)
  then obtain t1 where s: "record_result fid (fetch fid) t = Inr t1"
    and r: "for_fids fetch fids t1 = Inr t'"
    by (auto split: sum.splits)
  from record_result_returns[OF s] Cons.IH[OF r] show ?case by simp
qed

lemma for_fids_raises:
  "for_fids fetch fids t = Inl (e, t') \<Longrightarrow> coverage_printed t' = coverage_printed t"
proof (induction fids arbitrary: t)
  case Nil
  then show ?case by simp
next
  case (Cons fid fids)
  show ?case
  proof (cases "record_result fid (fetch fid) t")
    case (Inl x)
    with Cons.prems have "x = (e, t')" by simp
    with Inl record_result_raises[of fid "fetch fid" t e t'] show ?thesis by simp
  next
    case (Inr t1)
    with Cons.prems have "for_fids fetch fids t1 = Inl (e, t')" by simp
    from Cons.IH[OF this] record_result_returns[OF Inr] show ?thesis by simp
  qed
qed

lemma for_fids_failed:
  "\<forall>fid \<in> set fids. fetch_failed (fetch fid) \<Longrightarrow>
   \<exists>t'. for_fids fetch fids t = Inr t' \<and> successful_updates t' = successful_updates t"
proof (induction fids arbitrary: t)
  case Nil
  then show ?case by simp
next
  case (Cons fid fids)
  from Cons.prems have "fetch_failed (fetch fid)" by simp
  from record_result_failed[OF this, of fid t] obtain t1 where
    s: "record_result fid (fetch fid) t = Inr t1" "successful_updates t1 = successful_updates t"
    by blast
  from Cons.prems have "\<forall>fid \<in> set fids. fetch_failed (fetch fid)" by simp
  from Cons.IH[OF this, of t1] s show ?case by auto
qed

lemma coverage_printed_init: "\<not> coverage_printed init_tally"
  by (simp add: coverage_printed_def init_tally_def)

text \<open>
  C10. When each of the 100 fetches fails or returns an error, the loop ends with
  \<open>successful_updates = 0\<close>, the profile-coverage line divides by it and \<open>main\<close> ends there with
  \<open>ZeroDivisionError\<close>, the line not printed and the leaderboard refresh not reached. Whatever
  the fetches return, a run that ends by an exception has not printed the coverage line, and
  a run that goes on past the block has printed it and has at least one successful update.
\<close>

theorem coverage_line_divides_by_zero:
  "((\<forall>fid \<in> set [1..100]. fetch_failed (update_fid_with_profile json_loads (curl fid))) \<longrightarrow>
      (\<exists>t. main_final_results json_loads curl = Inl (ZeroDivisionError, t) \<and>
           successful_updates t = 0 \<and> \<not> coverage_printed t)) \<and>
   (\<forall>e t. main_final_results json_loads curl = Inl (e, t) \<longrightarrow> \<not> coverage_printed t) \<and>
   (\<forall>t. main_final_results json_loads curl = Inr t \<longrightarrow>
        0 < successful_updates t \<and> coverage_printed t)"
proof (intro conjI allI impI)
  let ?fetch = "\<lambda>fid. update_fid_with_profile json_loads (curl fid)"
  {
    assume "\<forall>fid \<in> set [1..100]. fetch_failed (?fetch fid)"
    from for_fids_failed[of "[1..100]" ?fetch init_tally, OF this] obtain t' where
      t': "for_fids ?fetch [1..100] init_tally = Inr t'" "successful_updates t' = 0"
      by (auto simp: init_tally_def)
    from for_fids_returns[OF t'(1)] have "\<not> coverage_printed t'"
      by (simp add: coverage_printed_init)
    with t' show "\<exists>t. main_final_results json_loads curl = Inl (ZeroDivisionError, t) \<and>
           successful_updates t = 0 \<and> \<not> coverage_printed t"
      by (simp add: main_final_results_def coverage_printed_say Let_def)
  }
  {
    fix e t
    assume m: "main_final_results json_loads curl = Inl (e, t)"
    show "\<not> coverage_printed t"
    proof (cases "for_fids ?fetch [1..100] init_tally")
      case (Inl x)
      with m have "x = (e, t)" by (simp add: main_final_results_def)
      with Inl for_fids_raises[of ?fetch "[1..100]" init_tally e t] show ?thesis
        by (simp add: coverage_printed_init)
    next
      case (Inr t')
      from for_fids_returns[OF Inr] have "\<not> coverage_printed t'"
        by (simp add: coverage_printed_init)
      with Inr m show ?thesis
        by (auto simp: main_final_results_def coverage_printed_say Let_def split: if_splits)
    qed
  }
  {
    fix t
    assume m: "main_final_results json_loads curl = Inr t"
    then obtain t' where t': "for_fids ?fetch [1..100] init_tally = Inr t'"
      by (cases "for_fids ?fetch [1..100] init_tally") (auto simp: main_final_results_def)
    from for_fids_returns[OF t'] have "0 \<le> successful_updates t'"
      by (simp add: init_tally_def)
    with t' m show "0 < successful_updates t" "coverage_printed t"
      by (auto simp: main_final_results_def coverage_printed_say Let_def split: if_splits)
  }
qed

theorem coverage_line_divides_by_zero_witness:
  "list_all (\<lambda>fid. fetch_failed (update_fid_with_profile one_user_decoder (all_timeouts fid)))
     [1..100] \<and>
   (\<exists>t. main_final_results one_user_decoder all_timeouts = Inl (ZeroDivisionError, t) \<and>
        successful_updates t = 0 \<and> \<not> coverage_printed t)"
proof -
  have f: "\<forall>fid \<in> set [1..100].
      fetch_failed (update_fid_with_profile one_user_decoder (all_timeouts fid))"
    by (simp add: update_fid_with_profile_def all_timeouts_def fetch_failed_def)
  with coverage_line_divides_by_zero[of one_user_decoder all_timeouts] show ?thesis
    unfolding list_all_iff by blast
qed

end
